theory Spec2Isabelle
  imports Main "HOL-Library.Sublist"
begin

section \<open>Values and the object store\<close>

text \<open>
  A JavaScript value is a primitive or a reference to an object of the store. Objects
  have identity: two references are the same object exactly when their addresses are
  equal, so cyclic cause chains and cyclic containers are ordinary stores.
  Numbers are the integral finite ones (\<open>VNum\<close>) and the non-finite ones
  (\<open>VNonFinite\<close>); functions and symbols carry a label only.
\<close>

type_synonym addr = nat

datatype jsval =
    VUndefined
  | VNull
  | VBool bool
  | VNum int
  | VNonFinite
  | VStr string
  | VBigInt int
  | VFunction string
  | VSymbol string
  | VRef addr

text \<open>
  An \<open>Error\<close> object: \<open>name\<close>, \<open>message\<close> and \<open>stack\<close> may be undefined
  (\<open>None\<close>); \<open>cause\<close> is any value.
\<close>

record JsError =
  name :: "string option"
  message :: "string option"
  stack :: "string option"
  cause :: jsval

text \<open>
  The objects of the store: errors, arrays, objects with their own enumerable
  properties in order, and dates. A date is kept as what its \<open>toJSON\<close> answers: the
  ISO text, or nothing for an invalid date. \<open>OWithToJSON f ob\<close> is the object \<open>ob\<close>
  when its prototype carries a callable \<open>toJSON\<close>, the function labelled \<open>f\<close>.
\<close>

datatype jsobj =
    OError JsError
  | OArray "jsval list"
  | OObject "(string \<times> jsval) list"
  | ODate "string option"
  | OWithToJSON string jsobj

type_synonym heap = "jsobj list"

fun body :: "jsobj \<Rightarrow> jsobj" where
  "body (OWithToJSON f ob) = body ob"
| "body ob = ob"

definition lookup :: "heap \<Rightarrow> addr \<Rightarrow> jsobj option" where
  "lookup h a = (if a < length h then Some (body (h ! a)) else None)"

definition inheritedToJSON :: "heap \<Rightarrow> addr \<Rightarrow> string option" where
  "inheritedToJSON h a =
     (if a < length h
      then (case h ! a of OWithToJSON f ob \<Rightarrow> Some f | _ \<Rightarrow> None)
      else None)"

text \<open>\<open>value instanceof Error\<close>: the address and the object when it is one.\<close>

definition instanceofError :: "heap \<Rightarrow> jsval \<Rightarrow> (addr \<times> JsError) option" where
  "instanceofError h v =
     (case v of
        VRef a \<Rightarrow> (case lookup h a of Some (OError e) \<Rightarrow> Some (a, e) | _ \<Rightarrow> None)
      | _ \<Rightarrow> None)"

section \<open>Error Inspector\<close>

text \<open>\<open>x || "Error"\<close> on a string that may be undefined: the empty string is falsy.\<close>

definition orElse :: "string option \<Rightarrow> string \<Rightarrow> string" where
  "orElse x d = (case x of None \<Rightarrow> d | Some s \<Rightarrow> if s = [] then d else s)"

definition formatErrorMessage :: "JsError \<Rightarrow> string" where
  "formatErrorMessage e =
     (if message e \<noteq> None \<and> message e \<noteq> Some []
      then the (message e)
      else orElse (name e) ''Error'')"

text \<open>
  The loop of \<open>getErrorCauses\<close>: \<open>seen\<close> is the set of visited errors (kept as the
  list of its insertions), \<open>causes\<close> the array built so far (each error as its
  reference together with the object it denotes), \<open>current\<close> the loop variable.
\<close>

function causesLoop ::
  "heap \<Rightarrow> addr list \<Rightarrow> (addr \<times> JsError) list \<Rightarrow> jsval \<Rightarrow> (addr \<times> JsError) list" where
  "causesLoop h seen causes current =
     (case instanceofError h current of
        None \<Rightarrow> causes
      | Some (a, e) \<Rightarrow>
          if a \<in> set seen then causes
          else causesLoop h (seen @ [a]) (causes @ [(a, e)]) (cause e))"
  by pat_completeness auto
termination
proof (relation "measure (\<lambda>(h, seen, causes, current). card ({..<length h} - set seen))")
  show "wf (measure (\<lambda>(h, seen, causes, current). card ({..<length h} - set seen)))"
    by simp
next
  fix h :: heap and seen :: "addr list" and causes :: "(addr \<times> JsError) list"
    and current :: jsval and x2 :: "addr \<times> JsError" and a :: addr and e :: JsError
  assume i: "instanceofError h current = Some x2" and x: "(a, e) = x2"
    and n: "a \<notin> set seen"
  from i x have "a < length h"
    by (auto simp: instanceofError_def lookup_def
        split: jsval.splits jsobj.splits option.splits if_splits)
  then have "{..<length h} - set (seen @ [a]) \<subset> {..<length h} - set seen"
    using n by auto
  then have "card ({..<length h} - set (seen @ [a])) < card ({..<length h} - set seen)"
    by (intro psubset_card_mono) auto
  then show "((h, seen @ [a], causes @ [(a, e)], cause e), (h, seen, causes, current))
      \<in> measure (\<lambda>(h, seen, causes, current). card ({..<length h} - set seen))"
    by simp
qed

declare causesLoop.simps [simp del]

definition getErrorCauses :: "heap \<Rightarrow> addr \<Rightarrow> (addr \<times> JsError) list" where
  "getErrorCauses h a =
     (case lookup h a of
        Some (OError e) \<Rightarrow> causesLoop h [a] [] (cause e)
      | _ \<Rightarrow> [])"

section \<open>Strings\<close>

definition LF :: char where
  "LF = CHR 0x0A"

definition ESC :: char where
  "ESC = CHR 0x1B"

text \<open>\<open>xs.join(sep)\<close>\<close>

fun join :: "string \<Rightarrow> string list \<Rightarrow> string" where
  "join sep [] = []"
| "join sep [x] = x"
| "join sep (x # y # ys) = x @ sep @ join sep (y # ys)"

text \<open>\<open>s.split(c)\<close> for a separator of one character: never the empty array.\<close>

fun splitOn :: "char \<Rightarrow> string \<Rightarrow> string list" where
  "splitOn c [] = [[]]"
| "splitOn c (x # xs) =
     (if x = c then [] # splitOn c xs
      else (case splitOn c xs of
              [] \<Rightarrow> [[x]]
            | r # rs \<Rightarrow> (x # r) # rs))"

text \<open>\<open>s.padEnd(n)\<close>\<close>

definition padEnd :: "nat \<Rightarrow> string \<Rightarrow> string" where
  "padEnd n s = s @ replicate (n - length s) CHR '' ''"

text \<open>
  \<open>s.toUpperCase()\<close> on the ASCII letters; every other character is kept. The code
  applies it to the level of a call that passed the filter, one of the five levels.
\<close>

definition upperChar :: "char \<Rightarrow> char" where
  "upperChar c =
     (case map_of (zip ''abcdefghijklmnopqrstuvwxyz'' ''ABCDEFGHIJKLMNOPQRSTUVWXYZ'') c of
        None \<Rightarrow> c
      | Some u \<Rightarrow> u)"

definition toUpperCase :: "string \<Rightarrow> string" where
  "toUpperCase s = map upperChar s"

text \<open>
  A string of the model is the UTF-8 encoding of the JavaScript string, so a code point
  is one to four characters of the model. \<open>s.trim()\<close> removes from both ends the
  white space and the line terminators of ECMAScript: U+0009, U+000A, U+000B, U+000C,
  U+000D, U+0020 (one byte each), U+00A0 (two bytes), and U+1680, U+2000 to U+200A,
  U+2028, U+2029, U+202F, U+205F, U+3000, U+FEFF (three bytes each).
\<close>

definition WHITE_SPACE_1 :: "char list" where
  "WHITE_SPACE_1 = [CHR 0x09, CHR 0x0A, CHR 0x0B, CHR 0x0C, CHR 0x0D, CHR 0x20]"

definition WHITE_SPACE_2 :: "string list" where
  "WHITE_SPACE_2 = [[CHR 0xC2, CHR 0xA0]]"

definition WHITE_SPACE_3 :: "string list" where
  "WHITE_SPACE_3 =
     [[CHR 0xE1, CHR 0x9A, CHR 0x80],
      [CHR 0xE2, CHR 0x80, CHR 0x80], [CHR 0xE2, CHR 0x80, CHR 0x81],
      [CHR 0xE2, CHR 0x80, CHR 0x82], [CHR 0xE2, CHR 0x80, CHR 0x83],
      [CHR 0xE2, CHR 0x80, CHR 0x84], [CHR 0xE2, CHR 0x80, CHR 0x85],
      [CHR 0xE2, CHR 0x80, CHR 0x86], [CHR 0xE2, CHR 0x80, CHR 0x87],
      [CHR 0xE2, CHR 0x80, CHR 0x88], [CHR 0xE2, CHR 0x80, CHR 0x89],
      [CHR 0xE2, CHR 0x80, CHR 0x8A],
      [CHR 0xE2, CHR 0x80, CHR 0xA8], [CHR 0xE2, CHR 0x80, CHR 0xA9],
      [CHR 0xE2, CHR 0x80, CHR 0xAF], [CHR 0xE2, CHR 0x81, CHR 0x9F],
      [CHR 0xE3, CHR 0x80, CHR 0x80], [CHR 0xEF, CHR 0xBB, CHR 0xBF]]"

text \<open>Every code point of the string is one that \<open>trim\<close> removes.\<close>

fun whiteSpaceOnly :: "string \<Rightarrow> bool" where
  "whiteSpaceOnly [] = True"
| "whiteSpaceOnly (a # s) =
     (if a \<in> set WHITE_SPACE_1 then whiteSpaceOnly s
      else (case s of
              [] \<Rightarrow> False
            | b # s' \<Rightarrow>
                if [a, b] \<in> set WHITE_SPACE_2 then whiteSpaceOnly s'
                else (case s' of
                        [] \<Rightarrow> False
                      | c # s'' \<Rightarrow>
                          if [a, b, c] \<in> set WHITE_SPACE_3 then whiteSpaceOnly s''
                          else False)))"

text \<open>\<open>line.trim()\<close> is truthy: what \<open>trim\<close> leaves is not the empty string.\<close>

definition trimTruthy :: "string \<Rightarrow> bool" where
  "trimTruthy line = (\<not> whiteSpaceOnly line)"

text \<open>\<open>n.toString()\<close> of a BigInt: its decimal digits.\<close>

function showNat :: "nat \<Rightarrow> string" where
  "showNat n =
     (if n < 10 then [''0123456789'' ! n]
      else showNat (n div 10) @ [''0123456789'' ! (n mod 10)])"
  by pat_completeness auto
termination
  by (relation "measure (\<lambda>n. n)") auto

declare showNat.simps [simp del]

definition showInt :: "int \<Rightarrow> string" where
  "showInt i = (if i < 0 then CHR ''-'' # showNat (nat (- i)) else showNat (nat i))"

section \<open>Levels, formats and colors\<close>

definition LOG_LEVELS :: "string list" where
  "LOG_LEVELS = [''debug'', ''info'', ''warn'', ''error'', ''fatal'']"

definition STDOUT_LEVELS :: "string list" where
  "STDOUT_LEVELS = [''debug'', ''info'']"

definition OUTPUT_FORMATS :: "string list" where
  "OUTPUT_FORMATS = [''text'', ''jsonl'']"

text \<open>\<open>xs.indexOf(x)\<close>: the first position of \<open>x\<close>, or \<open>-1\<close>.\<close>

fun indexOf :: "'a list \<Rightarrow> 'a \<Rightarrow> int" where
  "indexOf [] x = - 1"
| "indexOf (y # ys) x =
     (if y = x then 0
      else (let i = indexOf ys x in if i < 0 then - 1 else i + 1))"

definition COLORS_reset :: string where "COLORS_reset = ESC # ''[0m''"
definition COLORS_dim :: string where "COLORS_dim = ESC # ''[2m''"
definition COLORS_gray :: string where "COLORS_gray = ESC # ''[90m''"
definition COLORS_cyan :: string where "COLORS_cyan = ESC # ''[36m''"
definition COLORS_yellow :: string where "COLORS_yellow = ESC # ''[33m''"
definition COLORS_red :: string where "COLORS_red = ESC # ''[31m''"
definition COLORS_brightRed :: string where "COLORS_brightRed = ESC # ''[91m''"
definition COLORS_magenta :: string where "COLORS_magenta = ESC # ''[35m''"
definition COLORS_blue :: string where "COLORS_blue = ESC # ''[34m''"

text \<open>
  \<open>LEVEL_COLORS[level]\<close>; a string that is not a level has no entry, and the template
  string prints \<open>undefined\<close> for it.
\<close>

definition LEVEL_COLORS :: "string \<Rightarrow> string" where
  "LEVEL_COLORS level =
     (if level = ''debug'' then COLORS_gray
      else if level = ''info'' then COLORS_cyan
      else if level = ''warn'' then COLORS_yellow
      else if level = ''error'' then COLORS_red
      else if level = ''fatal'' then COLORS_brightRed
      else ''undefined'')"

section \<open>The environment and the logger\<close>

text \<open>
  What the code reads from its host, as parameters: the clock (\<open>now n\<close> is the text of
  \<open>new Date().toISOString()\<close> at the \<open>n\<close>-th reading of a call), the structural
  inspector \<open>inspect(value, {depth, colors})\<close>, the \<open>stack\<close> of the \<open>new Error()\<close>
  that \<open>captureNativeStack\<close> creates, the text JSON.stringify prints for a JSON tree,
  the variables of the process environment, and \<open>moduleToTruecolor\<close> (floating point).
  One more stands for the code of the caller that \<open>JSON.stringify\<close> runs:
  \<open>callFunction f this key\<close> is what the function labelled \<open>f\<close> returns or throws
  when called on \<open>this\<close> with the argument \<open>key\<close> (a \<open>toJSON\<close> method). Such a
  method is taken not to change the store; an object it allocates is an object of the
  store that nothing else refers to.
\<close>

datatype json =
    JNull
  | JBool bool
  | JNum int
  | JStr string
  | JArr "json list"
  | JObj "(string \<times> json) list"

text \<open>The exceptions of the model: an \<open>Error\<close> or a \<open>TypeError\<close>, with its message.\<close>

datatype exn =
    Error string
  | TypeError string

record Env =
  now :: "nat \<Rightarrow> string"
  inspect :: "heap \<Rightarrow> jsval \<Rightarrow> nat \<Rightarrow> bool \<Rightarrow> string"
  newErrorStack :: "string option"
  jsonText :: "json \<Rightarrow> string"
  NO_COLOR :: "string option"
  FORCE_COLOR :: "string option"
  COLORTERM :: "string option"
  bunEnableANSIColors :: "bool option"
  stdoutIsTTY :: bool
  moduleToTruecolor :: "string \<Rightarrow> string"
  callFunction :: "string \<Rightarrow> jsval \<Rightarrow> string \<Rightarrow> exn + jsval"

text \<open>
  The fields of a \<open>Logger\<close>. Its two stream handles are not fields of the model: a
  write names the handle it goes to (\<open>Stdout\<close> for \<open>this.stdout\<close>, \<open>Stderr\<close> for
  \<open>this.stderr\<close>).
\<close>

record Logger =
  logLevel :: string
  module :: string
  useColor :: bool
  useTruecolor :: bool
  moduleColor :: string
  outputFormat :: string
  jsonlSplitStreams :: bool

record LoggerOptions =
  opt_logLevel :: "string option"
  opt_module :: "string option"
  opt_outputFormat :: "string option"
  opt_jsonlSplitStreams :: "bool option"

datatype stream = Stdout | Stderr

text \<open>What a call does to the world, in order: writes to a stream, and \<open>process.exit\<close>.\<close>

datatype event =
    Write stream string
  | Exit nat

definition detectColorSupport :: "Env \<Rightarrow> bool" where
  "detectColorSupport env =
     (if NO_COLOR env \<noteq> None then False
      else if FORCE_COLOR env \<noteq> None then True
      else (case bunEnableANSIColors env of
              None \<Rightarrow> stdoutIsTTY env
            | Some b \<Rightarrow> b))"

definition detectTruecolorSupport :: "Env \<Rightarrow> bool \<Rightarrow> bool" where
  "detectTruecolorSupport env color =
     (if \<not> color then False
      else COLORTERM env = Some ''truecolor'' \<or> COLORTERM env = Some ''24bit'')"

definition computeModuleColor :: "Env \<Rightarrow> string \<Rightarrow> bool \<Rightarrow> string" where
  "computeModuleColor env m truecolor =
     (if m = [] then []
      else if truecolor then moduleToTruecolor env m else COLORS_magenta)"

definition invalidLevelMessage :: "string \<Rightarrow> string" where
  "invalidLevelMessage level =
     ''Invalid log level: '' @ [CHR 0x22] @ level @ [CHR 0x22] @ ''. Valid levels: ''
       @ join '', '' LOG_LEVELS"

definition invalidFormatMessage :: "string \<Rightarrow> string" where
  "invalidFormatMessage fmt =
     ''Invalid output format: '' @ [CHR 0x22] @ fmt @ [CHR 0x22] @ ''. Valid formats: ''
       @ join '', '' OUTPUT_FORMATS"

text \<open>The constructor: the defaults of the options, the two checks, then the fields.\<close>

definition newLogger :: "Env \<Rightarrow> LoggerOptions \<Rightarrow> exn + Logger" where
  "newLogger env opts =
     (let level = (case opt_logLevel opts of None \<Rightarrow> ''info'' | Some l \<Rightarrow> l);
          m = (case opt_module opts of None \<Rightarrow> [] | Some x \<Rightarrow> x);
          fmt = (case opt_outputFormat opts of None \<Rightarrow> ''text'' | Some f \<Rightarrow> f);
          split = (case opt_jsonlSplitStreams opts of None \<Rightarrow> False | Some b \<Rightarrow> b)
      in if level \<notin> set LOG_LEVELS then Inl (Error (invalidLevelMessage level))
         else if fmt \<notin> set OUTPUT_FORMATS then Inl (Error (invalidFormatMessage fmt))
         else (let color = detectColorSupport env;
                   truecolor = detectTruecolorSupport env color
               in Inr \<lparr>logLevel = level, module = m, useColor = color,
                        useTruecolor = truecolor,
                        moduleColor = computeModuleColor env m truecolor,
                        outputFormat = fmt, jsonlSplitStreams = split\<rparr>))"

text \<open>
  \<open>setLogLevel\<close>: the exception it throws, if any, and the logger as it is after the
  call.
\<close>

definition setLogLevel :: "Logger \<Rightarrow> string \<Rightarrow> exn option \<times> Logger" where
  "setLogLevel s level =
     (if level \<notin> set LOG_LEVELS then (Some (Error (invalidLevelMessage level)), s)
      else (None, s\<lparr>logLevel := level\<rparr>))"

definition colorize :: "Logger \<Rightarrow> string \<Rightarrow> string \<Rightarrow> string" where
  "colorize s text color = (if \<not> useColor s then text else color @ text @ COLORS_reset)"

definition formatValue :: "Env \<Rightarrow> heap \<Rightarrow> Logger \<Rightarrow> jsval \<Rightarrow> string" where
  "formatValue env h s v =
     (case v of
        VStr x \<Rightarrow> x
      | _ \<Rightarrow> (case instanceofError h v of
                Some (a, e) \<Rightarrow> formatErrorMessage e
              | None \<Rightarrow> inspect env h v 10 (useColor s)))"

definition formatArgs :: "Env \<Rightarrow> heap \<Rightarrow> Logger \<Rightarrow> jsval list \<Rightarrow> string" where
  "formatArgs env h s args =
     (if args = [] then [] else '' '' @ join '' '' (map (formatValue env h s) args))"

text \<open>\<open>buildPrefix\<close> at the clock reading \<open>t\<close>.\<close>

definition buildPrefix :: "Env \<Rightarrow> Logger \<Rightarrow> nat \<Rightarrow> string \<Rightarrow> string" where
  "buildPrefix env s t level =
     (let timestamp = colorize s (now env t) COLORS_dim;
          levelTag = colorize s (padEnd 7 (''['' @ toUpperCase level @ '']''))
                       (LEVEL_COLORS level);
          moduleTag = (if module s \<noteq> []
                       then colorize s (''['' @ module s @ '']'') (moduleColor s) @ '' ''
                       else [])
      in timestamp @ ''  '' @ levelTag @ ''  '' @ moduleTag)"

definition writeLine :: "Logger \<Rightarrow> string \<Rightarrow> string \<Rightarrow> event" where
  "writeLine s level msg =
     (let useUnifiedJsonStream = (outputFormat s = ''jsonl'' \<and> \<not> jsonlSplitStreams s);
          strm = (if useUnifiedJsonStream then Stdout
                  else if level \<in> set STDOUT_LEVELS then Stdout
                  else Stderr)
      in Write strm (msg @ [LF]))"

text \<open>\<open>captureNativeStack\<close>: the lines of the capture but the first.\<close>

definition captureNativeStack :: "Env \<Rightarrow> string" where
  "captureNativeStack env =
     (let stk = orElse (newErrorStack env) [];
          lines = splitOn LF stk
      in join [LF] (drop 1 lines))"

section \<open>Text mode: cause lines and stack lines\<close>

text \<open>
  Each of \<open>logCauseChain\<close> and \<open>logStack\<close> builds the prefix once (the clock reading
  \<open>t\<close>) and writes one line per cause, or per line of the stack that is not blank.
\<close>

definition logCauseChain :: "Env \<Rightarrow> heap \<Rightarrow> Logger \<Rightarrow> nat \<Rightarrow> string \<Rightarrow> addr \<Rightarrow> event list" where
  "logCauseChain env h s t level a =
     (let causes = getErrorCauses h a;
          prefix = buildPrefix env s t level
      in map (\<lambda>(c, ce). writeLine s level (prefix @ ''  Caused by: '' @ formatErrorMessage ce))
           causes)"

definition logStack :: "Env \<Rightarrow> Logger \<Rightarrow> nat \<Rightarrow> string \<Rightarrow> string \<Rightarrow> string \<Rightarrow> event list" where
  "logStack env s t level stk indent =
     (let prefix = buildPrefix env s t level;
          lines = filter trimTruthy (splitOn LF stk)
      in map (\<lambda>line. writeLine s level (prefix @ indent @ line)) lines)"

text \<open>
  The loop \<open>for (const error of errors)\<close> of \<open>logInternal\<close>: the writes, and the number
  of clock readings after it.
\<close>

fun logErrors ::
  "Env \<Rightarrow> heap \<Rightarrow> Logger \<Rightarrow> nat \<Rightarrow> string \<Rightarrow> (addr \<times> JsError) list \<Rightarrow> event list \<times> nat" where
  "logErrors env h s t level [] = ([], t)"
| "logErrors env h s t level ((a, e) # rest) =
     (let chain = logCauseChain env h s t level a;
          frames = (if orElse (stack e) [] \<noteq> []
                    then logStack env s (t + 1) level (orElse (stack e) []) ''  ''
                    else []);
          t' = (if orElse (stack e) [] \<noteq> [] then t + 2 else t + 1)
      in case logErrors env h s t' level rest of
           (evs, t'') \<Rightarrow> (chain @ frames @ evs, t''))"

section \<open>JSON mode: the record\<close>

text \<open>
  The objects a call allocates (the record, the arrays and the serialized errors) are
  never aliased: each is one node of a tree, with a tag that stands for its identity,
  different from the tag of every other object of the call. The leaves are the values
  of the caller, which may refer to the store.
\<close>

datatype tval =
    Raw jsval
  | NewArr nat "tval list"
  | NewObj nat "(string \<times> tval) list"

type_synonym jsonRecord = "(string \<times> tval) list"

record JsonLogContext =
  duration :: "string option"
  durationMs :: "int option"

definition optStr :: "string option \<Rightarrow> jsval" where
  "optStr x = (case x of None \<Rightarrow> VUndefined | Some s \<Rightarrow> VStr s)"

text \<open>
  \<open>serializeError\<close>, allocating from tag \<open>n\<close>: the details object, then the array of
  the causes and one object per cause.
\<close>

definition serializeCause :: "nat \<times> addr \<times> JsError \<Rightarrow> tval" where
  "serializeCause x =
     (case x of (i, c, ce) \<Rightarrow>
        NewObj i [(''name'', Raw (VStr (orElse (name ce) ''Error''))),
                  (''message'', Raw (VStr (formatErrorMessage ce))),
                  (''stack'', Raw (optStr (stack ce)))])"

definition serializeError :: "heap \<Rightarrow> nat \<Rightarrow> addr \<times> JsError \<Rightarrow> tval" where
  "serializeError h n err =
     (case err of (a, e) \<Rightarrow>
        (let causes = getErrorCauses h a
         in NewObj n
              ([(''name'', Raw (VStr (orElse (name e) ''Error''))),
                (''message'', Raw (VStr (formatErrorMessage e)))]
               @ (if orElse (stack e) [] \<noteq> []
                  then [(''stack'', Raw (VStr (orElse (stack e) [])))] else [])
               @ (if causes \<noteq> []
                  then [(''causes'', NewArr (n + 1) (map serializeCause (enumerate (n + 2) causes)))]
                  else []))))"

text \<open>The number of objects \<open>serializeError\<close> allocates.\<close>

definition allocated :: "heap \<Rightarrow> addr \<times> JsError \<Rightarrow> nat" where
  "allocated h err =
     (let k = length (getErrorCauses h (fst err)) in if k = 0 then 1 else k + 2)"

fun serializeErrors :: "heap \<Rightarrow> nat \<Rightarrow> (addr \<times> JsError) list \<Rightarrow> tval list" where
  "serializeErrors h n [] = []"
| "serializeErrors h n (err # rest) =
     serializeError h n err # serializeErrors h (n + allocated h err) rest"

text \<open>
  \<open>buildJsonRecord\<close>: the properties of the record in the order they are set
  (\<open>ctx\<close> is the parameter \<open>context\<close>). The
  record itself has tag 0, the array of the arguments tag 1, the array of the errors
  tag 2, the serialized errors the tags from 3.
\<close>

definition buildJsonRecord ::
  "Env \<Rightarrow> heap \<Rightarrow> Logger \<Rightarrow> string \<Rightarrow> jsval \<Rightarrow> jsval list \<Rightarrow> JsonLogContext option \<Rightarrow> jsonRecord" where
  "buildJsonRecord env h s level msg args ctx =
     [(''timestamp'', Raw (VStr (now env 0))),
      (''level'', Raw (VStr level)),
      (''message'', Raw msg)]
     @ (if module s \<noteq> [] then [(''module'', Raw (VStr (module s)))] else [])
     @ (if args \<noteq> [] then [(''args'', NewArr 1 (map Raw args))] else [])
     @ (case ctx of
          None \<Rightarrow> []
        | Some c \<Rightarrow> (case duration c of None \<Rightarrow> [] | Some d \<Rightarrow> [(''duration'', Raw (VStr d))]))
     @ (case ctx of
          None \<Rightarrow> []
        | Some c \<Rightarrow> (case durationMs c of None \<Rightarrow> [] | Some d \<Rightarrow> [(''durationMs'', Raw (VNum d))]))
     @ (if level = ''error'' \<or> level = ''fatal''
        then (let errors = List.map_filter (instanceofError h) (msg # args)
              in (if errors \<noteq> []
                  then [(''errors'', NewArr 2 (serializeErrors h 3 errors))] else [])
                 @ [(''nativeStack'', Raw (VStr (captureNativeStack env)))])
        else [])"

text \<open>A bound of the tags of a tree: every tag in it is below.\<close>

fun tagBound :: "tval \<Rightarrow> nat" where
  "tagBound (Raw v) = 0"
| "tagBound (NewArr i ts) = fold max (map tagBound ts) (Suc i)"
| "tagBound (NewObj i ps) = fold max (map (\<lambda>p. tagBound (snd p)) ps) (Suc i)"

section \<open>JSON mode: stringification\<close>

text \<open>
  The identity of an object met by the walk: an object of the store, or one the call
  allocated. The replacer keeps the array \<open>ancestors\<close> (here with its last element
  first) and, since it allocates when it serializes an error, the next free tag.
\<close>

datatype oid = Heap addr | Fresh nat

record RState =
  ancestors :: "oid list"
  nextTag :: nat

text \<open>
  The branch of the replacer for an object that is not null: pop the ancestors down to
  \<open>this\<close>, the holder of the value, then answer the marker when the value is among
  those left, and push it otherwise.
\<close>

definition track :: "oid \<Rightarrow> oid \<Rightarrow> tval \<Rightarrow> RState \<Rightarrow> tval \<times> RState" where
  "track this x v st =
     (let anc = dropWhile (\<lambda>top. top \<noteq> this) (ancestors st)
      in if x \<in> set anc then (Raw (VStr ''[Circular]''), st\<lparr>ancestors := anc\<rparr>)
         else (v, st\<lparr>ancestors := x # anc\<rparr>))"

text \<open>
  The replacer, called on \<open>value\<close> with \<open>this\<close> the object that holds it. A
  reference outside the store does not occur; it is read as \<open>undefined\<close>.
\<close>

definition replacer :: "Env \<Rightarrow> heap \<Rightarrow> oid \<Rightarrow> RState \<Rightarrow> tval \<Rightarrow> tval \<times> RState" where
  "replacer env h this st v =
     (case v of
        Raw x \<Rightarrow>
          (case instanceofError h x of
             Some err \<Rightarrow> (serializeError h (nextTag st) err,
                          st\<lparr>nextTag := nextTag st + allocated h err\<rparr>)
           | None \<Rightarrow>
               (case x of
                  VBigInt n \<Rightarrow> (Raw (VStr (showInt n)), st)
                | VFunction f \<Rightarrow> (Raw (VStr (inspect env h x 1 False)), st)
                | VSymbol f \<Rightarrow> (Raw (VStr (inspect env h x 1 False)), st)
                | VUndefined \<Rightarrow> (Raw VNull, st)
                | VRef a \<Rightarrow> (if a < length h then track this (Heap a) v st else (Raw VNull, st))
                | _ \<Rightarrow> (v, st)))
      | NewArr i ts \<Rightarrow> track this (Fresh i) v st
      | NewObj i ps \<Rightarrow> track this (Fresh i) v st)"

text \<open>
  The step of \<open>SerializeJSONProperty\<close> before the replacer: when the value is an
  object with a callable \<open>toJSON\<close> (its own property, else the one it inherits, and
  the built-in one of a date), the value becomes what the call of it with the key
  returns. The objects the call allocated have none.
\<close>

definition toJSON :: "Env \<Rightarrow> heap \<Rightarrow> string \<Rightarrow> tval \<Rightarrow> exn + tval" where
  "toJSON env h key v =
     (case v of
        Raw (VRef a) \<Rightarrow>
          (case lookup h a of
             None \<Rightarrow> Inr v
           | Some (ODate d) \<Rightarrow> Inr (Raw (case d of None \<Rightarrow> VNull | Some txt \<Rightarrow> VStr txt))
           | Some ob \<Rightarrow>
               (case (case (case ob of OObject ps \<Rightarrow> map_of ps ''toJSON'' | _ \<Rightarrow> None) of
                        Some (VFunction f) \<Rightarrow> Some f
                      | Some _ \<Rightarrow> None
                      | None \<Rightarrow> inheritedToJSON h a) of
                  None \<Rightarrow> Inr v
                | Some f \<Rightarrow>
                    (case callFunction env f (VRef a) key of
                       Inl x \<Rightarrow> Inl x
                     | Inr r \<Rightarrow> Inr (Raw r))))
      | _ \<Rightarrow> Inr v)"

text \<open>
  The measure of the walk: the objects of the store not on the stack, then the size
  of the tree still to print, where a reference to the store counts for more than any
  object the replacer may allocate in its place.
\<close>

fun nodes :: "tval \<Rightarrow> nat" where
  "nodes (Raw v) = 0"
| "nodes (NewArr i ts) = Suc (sum_list (map (\<lambda>t. Suc (nodes t)) ts))"
| "nodes (NewObj i ps) = Suc (sum_list (map (\<lambda>p. Suc (nodes (snd p))) ps))"

definition detailsSize :: "heap \<Rightarrow> addr \<Rightarrow> nat" where
  "detailsSize h a =
     (case lookup h a of
        Some (OError e) \<Rightarrow> nodes (serializeError h 0 (a, e))
      | _ \<Rightarrow> 0)"

definition detailsBound :: "heap \<Rightarrow> nat" where
  "detailsBound h = Max (insert 0 (detailsSize h ` {..<length h}))"

fun weight :: "heap \<Rightarrow> tval \<Rightarrow> nat" where
  "weight h (Raw v) = (case v of VRef a \<Rightarrow> Suc (detailsBound h) | _ \<Rightarrow> 0)"
| "weight h (NewArr i ts) = Suc (sum_list (map (\<lambda>t. Suc (weight h t)) ts))"
| "weight h (NewObj i ps) = Suc (sum_list (map (\<lambda>p. Suc (weight h (snd p))) ps))"

definition unvisited :: "heap \<Rightarrow> addr list \<Rightarrow> nat" where
  "unvisited h stk = card ({..<length h} - set stk)"

lemma lookup_Some_less: "lookup h a = Some ob \<Longrightarrow> a < length h"
  by (simp add: lookup_def split: if_splits)

lemma unvisited_less:
  "lookup h a = Some ob \<Longrightarrow> a \<notin> set stk \<Longrightarrow> unvisited h (a # stk) < unvisited h stk"
  unfolding unvisited_def
  by (intro psubset_card_mono) (auto dest: lookup_Some_less)

lemma weight_serializeCause: "weight h (serializeCause x) = 4"
  by (cases x) (simp add: serializeCause_def optStr_def split: option.splits)

lemma nodes_serializeCause: "nodes (serializeCause x) = 4"
  by (cases x) (simp add: serializeCause_def)

lemma weight_causes:
  "sum_list (map ((\<lambda>t. Suc (weight h t)) \<circ> serializeCause) xs) = 5 * length xs"
  by (induction xs) (simp_all add: weight_serializeCause)

lemma nodes_causes:
  "sum_list (map ((\<lambda>t. Suc (nodes t)) \<circ> serializeCause) xs) = 5 * length xs"
  by (induction xs) (simp_all add: nodes_serializeCause)

lemma weight_serializeError: "weight h (serializeError h n err) = nodes (serializeError h 0 err)"
  by (cases err) (simp add: serializeError_def Let_def weight_causes nodes_causes)

lemma serializeError_bounded:
  assumes "instanceofError h x = Some err"
  shows "weight h (serializeError h n err) \<le> detailsBound h"
proof -
  obtain a e where err: "err = (a, e)" by (cases err)
  from assms err have l: "lookup h a = Some (OError e)"
    by (auto simp: instanceofError_def split: jsval.splits option.splits jsobj.splits)
  then have "detailsSize h a = nodes (serializeError h 0 err)"
    by (simp add: detailsSize_def err)
  moreover from l have "detailsSize h a \<in> insert 0 (detailsSize h ` {..<length h})"
    by (auto dest: lookup_Some_less)
  then have "detailsSize h a \<le> detailsBound h"
    unfolding detailsBound_def by (intro Max_ge) auto
  ultimately show ?thesis by (simp add: weight_serializeError)
qed

lemma track_cases:
  "track this x v st = (v', st') \<Longrightarrow> v' = v \<or> v' = Raw (VStr ''[Circular]'')"
  by (auto simp: track_def Let_def split: if_splits)

lemma toJSON_cases:
  assumes "toJSON env h key v = Inr v1"
  shows "v1 = v \<or> (\<exists>a y. v = Raw (VRef a) \<and> v1 = Raw y)"
  using assms
  by (auto simp: toJSON_def split: tval.splits jsval.splits option.splits jsobj.splits sum.splits)

lemma replacer_NewArr:
  "replacer env h this st v = (NewArr i ts, st')
   \<Longrightarrow> v = NewArr i ts"
  by (cases v)
     (auto simp: replacer_def serializeError_def Let_def
           dest!: track_cases split: option.splits jsval.splits if_splits prod.splits)

lemma replacer_NewObj:
  assumes "replacer env h this st v = (NewObj i ps, st')"
  shows "v = NewObj i ps
       \<or> (\<exists>a err. v = Raw (VRef a) \<and> instanceofError h (VRef a) = Some err
             \<and> serializeError h (nextTag st) err = NewObj i ps)"
proof (cases v)
  case (Raw x)
  show ?thesis
  proof (cases "instanceofError h x")
    case None
    with assms Raw show ?thesis
      by (auto simp: replacer_def dest!: track_cases split: jsval.splits if_splits)
  next
    case (Some err)
    then obtain a where "x = VRef a"
      by (auto simp: instanceofError_def split: jsval.splits)
    with assms Raw Some show ?thesis
      by (cases err) (simp add: replacer_def)
  qed
next
  case (NewArr j ts)
  with assms show ?thesis by (auto simp: replacer_def dest!: track_cases)
next
  case (NewObj j qs)
  with assms show ?thesis by (auto simp: replacer_def dest!: track_cases)
qed

lemma walk_NewArr_smaller:
  assumes "toJSON env h key v = Inr v1" and "replacer env h this st v1 = (NewArr i ts, st')"
  shows "(\<Sum>t\<leftarrow>ts. Suc (weight h t)) < weight h v"
proof -
  from replacer_NewArr [OF assms(2)] have "v1 = NewArr i ts" .
  with toJSON_cases [OF assms(1)] have "v = NewArr i ts" by auto
  then show ?thesis by simp
qed

lemma walk_NewObj_smaller:
  assumes "toJSON env h key v = Inr v1" and "replacer env h this st v1 = (NewObj i ps, st')"
  shows "(\<Sum>p\<leftarrow>ps. Suc (weight h (snd p))) < weight h v"
proof -
  from replacer_NewObj [OF assms(2)] consider
    (same) "v1 = NewObj i ps"
    | (details) a err where "v1 = Raw (VRef a)" "instanceofError h (VRef a) = Some err"
        "serializeError h (nextTag st) err = NewObj i ps"
    by blast
  then show ?thesis
  proof cases
    case same
    with toJSON_cases [OF assms(1)] have "v = NewObj i ps" by auto
    then show ?thesis by simp
  next
    case details
    with toJSON_cases [OF assms(1)] obtain b where v: "v = Raw (VRef b)" by auto
    from serializeError_bounded [OF details(2), of "nextTag st"] details(3)
    have "weight h (NewObj i ps) \<le> detailsBound h" by simp
    with v show ?thesis by simp
  qed
qed

text \<open>
  \<open>JSON.stringify\<close> with a replacer function, as ECMAScript defines it:
  \<open>SerializeJSONProperty\<close> takes the value of the key in its holder, applies the
  \<open>toJSON\<close> of the value, calls the replacer on the result with the holder, then
  prints what the replacer returns; \<open>SerializeJSONObject\<close> and \<open>SerializeJSONArray\<close>
  refuse an object that is on their own stack \<open>stk\<close> (the \<open>TypeError\<close> of a cyclic
  structure), push it, and walk its properties in order (the keys of an array are
  its indices, from \<open>i\<close> on for the elements left). An undefined result drops the
  property of an object and prints \<open>null\<close> in an array. The objects the call
  allocated cannot be on the stack when they are met, so the stack holds the objects
  of the store only. The texts of the two exceptions are those of V8; another engine
  words them otherwise.
\<close>

function
  serializeJSONProperty ::
    "Env \<Rightarrow> heap \<Rightarrow> addr list \<Rightarrow> oid \<Rightarrow> string \<Rightarrow> RState \<Rightarrow> tval
       \<Rightarrow> exn + (json option \<times> RState)"
and serializeJSONObject ::
    "Env \<Rightarrow> heap \<Rightarrow> addr list \<Rightarrow> oid \<Rightarrow> RState \<Rightarrow> (string \<times> tval) list
       \<Rightarrow> exn + ((string \<times> json) list \<times> RState)"
and serializeJSONArray ::
    "Env \<Rightarrow> heap \<Rightarrow> addr list \<Rightarrow> oid \<Rightarrow> nat \<Rightarrow> RState \<Rightarrow> tval list
       \<Rightarrow> exn + (json list \<times> RState)"
where
  "serializeJSONProperty env h stk holder key st v =
     (case toJSON env h key v of
        Inl x \<Rightarrow> Inl x
      | Inr v1 \<Rightarrow>
     (case replacer env h holder st v1 of
        (Raw VUndefined, st') \<Rightarrow> Inr (None, st')
      | (Raw VNull, st') \<Rightarrow> Inr (Some JNull, st')
      | (Raw (VBool b), st') \<Rightarrow> Inr (Some (JBool b), st')
      | (Raw (VNum n), st') \<Rightarrow> Inr (Some (JNum n), st')
      | (Raw VNonFinite, st') \<Rightarrow> Inr (Some JNull, st')
      | (Raw (VStr x), st') \<Rightarrow> Inr (Some (JStr x), st')
      | (Raw (VBigInt n), st') \<Rightarrow> Inl (TypeError ''Do not know how to serialize a BigInt'')
      | (Raw (VFunction f), st') \<Rightarrow> Inr (None, st')
      | (Raw (VSymbol f), st') \<Rightarrow> Inr (None, st')
      | (Raw (VRef a), st') \<Rightarrow>
          (case lookup h a of
             None \<Rightarrow> Inr (None, st')
           | Some ob \<Rightarrow>
               if a \<in> set stk then Inl (TypeError ''Converting circular structure to JSON'')
               else (case ob of
                       OArray vs \<Rightarrow>
                         (case serializeJSONArray env h (a # stk) (Heap a) 0 st' (map Raw vs) of
                            Inl x \<Rightarrow> Inl x
                          | Inr (js, st'') \<Rightarrow> Inr (Some (JArr js), st''))
                     | OObject ps \<Rightarrow>
                         (case serializeJSONObject env h (a # stk) (Heap a) st'
                                 (map (\<lambda>p. (fst p, Raw (snd p))) ps) of
                            Inl x \<Rightarrow> Inl x
                          | Inr (js, st'') \<Rightarrow> Inr (Some (JObj js), st''))
                     | _ \<Rightarrow> Inr (Some (JObj []), st')))
      | (NewArr i ts, st') \<Rightarrow>
          (case serializeJSONArray env h stk (Fresh i) 0 st' ts of
             Inl x \<Rightarrow> Inl x
           | Inr (js, st'') \<Rightarrow> Inr (Some (JArr js), st''))
      | (NewObj i ps, st') \<Rightarrow>
          (case serializeJSONObject env h stk (Fresh i) st' ps of
             Inl x \<Rightarrow> Inl x
           | Inr (js, st'') \<Rightarrow> Inr (Some (JObj js), st''))))"
| "serializeJSONObject env h stk holder st [] = Inr ([], st)"
| "serializeJSONObject env h stk holder st (p # ps) =
     (case serializeJSONProperty env h stk holder (fst p) st (snd p) of
        Inl x \<Rightarrow> Inl x
      | Inr (r, st') \<Rightarrow>
          (case serializeJSONObject env h stk holder st' ps of
             Inl x \<Rightarrow> Inl x
           | Inr (js, st'') \<Rightarrow>
               Inr ((case r of None \<Rightarrow> js | Some j \<Rightarrow> (fst p, j) # js), st'')))"
| "serializeJSONArray env h stk holder i st [] = Inr ([], st)"
| "serializeJSONArray env h stk holder i st (t # ts) =
     (case serializeJSONProperty env h stk holder (showNat i) st t of
        Inl x \<Rightarrow> Inl x
      | Inr (r, st') \<Rightarrow>
          (case serializeJSONArray env h stk holder (Suc i) st' ts of
             Inl x \<Rightarrow> Inl x
           | Inr (js, st'') \<Rightarrow>
               Inr ((case r of None \<Rightarrow> JNull | Some j \<Rightarrow> j) # js, st'')))"
  by pat_completeness auto
termination
  apply (relation "inv_image (less_than <*lex*> less_than)
     (\<lambda>x. case x of
        Inl (env, h, stk, holder, key, st, v) \<Rightarrow> (unvisited h stk, weight h v)
      | Inr (Inl (env, h, stk, holder, st, ps)) \<Rightarrow>
          (unvisited h stk, sum_list (map (\<lambda>p. Suc (weight h (snd p))) ps))
      | Inr (Inr (env, h, stk, holder, i, st, ts)) \<Rightarrow>
          (unvisited h stk, sum_list (map (\<lambda>t. Suc (weight h t)) ts)))")
  subgoal by (intro wf_inv_image wf_lex_prod wf_less_than)
  subgoal by (simp add: unvisited_less)
  subgoal by (simp add: unvisited_less)
  subgoal for env h stk holder key st v v1 x y i ts
    using walk_NewArr_smaller [of env h key v v1 holder st i ts y] by simp
  subgoal for env h stk holder key st v v1 x y i ps
    using walk_NewObj_smaller [of env h key v v1 holder st i ps y] by simp
  subgoal by simp
  subgoal by simp
  subgoal by simp
  subgoal by simp
  done

text \<open>
  \<open>JSON.stringify(record, replacer)\<close>: the walk starts at the wrapper object that holds
  the record under the empty key, with no ancestor.
\<close>

declare serializeJSONProperty.simps [simp del]

definition stringifyJsonTree :: "Env \<Rightarrow> heap \<Rightarrow> jsonRecord \<Rightarrow> exn + json option" where
  "stringifyJsonTree env h r =
     (let root = NewObj 0 r;
          wrapper = tagBound root
      in case serializeJSONProperty env h [] (Fresh wrapper) []
                \<lparr>ancestors = [], nextTag = Suc wrapper\<rparr> root of
           Inl x \<Rightarrow> Inl x
         | Inr (j, st) \<Rightarrow> Inr j)"

definition stringifyJsonRecord :: "Env \<Rightarrow> heap \<Rightarrow> jsonRecord \<Rightarrow> exn + string" where
  "stringifyJsonRecord env h r =
     (case stringifyJsonTree env h r of
        Inl x \<Rightarrow> Inl x
      | Inr None \<Rightarrow> Inr ''undefined''
      | Inr (Some j) \<Rightarrow> Inr (jsonText env j))"

section \<open>The logger\<close>

text \<open>
  \<open>logInternal\<close>: the writes and the exit of the call in the order they happen, and
  the exception that ends it when one is thrown. The prefix of the primary line is
  built at the first clock reading of the call; in JSON mode that reading is the
  timestamp of the record.
\<close>

definition logInternal ::
  "Env \<Rightarrow> heap \<Rightarrow> Logger \<Rightarrow> string \<Rightarrow> jsval \<Rightarrow> jsval list \<Rightarrow> JsonLogContext option
     \<Rightarrow> event list \<times> exn option" where
  "logInternal env h s level msg args ctx =
     (if indexOf LOG_LEVELS level < indexOf LOG_LEVELS (logLevel s) then ([], None)
      else if outputFormat s = ''jsonl'' then
        (let jsonRecord = buildJsonRecord env h s level msg args ctx
         in case stringifyJsonRecord env h jsonRecord of
              Inl x \<Rightarrow> ([], Some x)
            | Inr line \<Rightarrow>
                (writeLine s level line # (if level = ''fatal'' then [Exit 1] else []), None))
      else
        (let prefix = buildPrefix env s 0 level;
             formattedMessage = formatValue env h s msg;
             formattedArgs = formatArgs env h s args;
             outputMessage = prefix @ formattedMessage @ formattedArgs;
             extra =
               (if level = ''error'' \<or> level = ''fatal''
                then (let errors = List.map_filter (instanceofError h) (msg # args)
                      in case logErrors env h s 1 level errors of
                           (evs, t) \<Rightarrow>
                             (let nativeStack = captureNativeStack env
                              in evs @ (if nativeStack \<noteq> []
                                        then writeLine s level (prefix @ ''  Stack trace:'')
                                             # logStack env s t level nativeStack ''  ''
                                        else [])))
                else [])
         in (writeLine s level outputMessage # extra
               @ (if level = ''fatal'' then [Exit 1] else []), None)))"


section \<open>The native stack as the claim words it\<close>

text \<open>
  The capture of \<open>captureNativeStack\<close> is the text of the \<open>stack\<close> of a new error: its
  first line is the header \<open>Error\<close> (so says the comment of the source), and the lines
  after it are the frames, the innermost first.
\<close>

definition stackFrames :: "string \<Rightarrow> string list" where
  "stackFrames capture = drop 1 (splitOn LF capture)"

text \<open>
  The field \<open>nativeStack\<close> in the words of the specification, to compare with the code:
  the trace with its own first frame removed.
\<close>

definition spec_nativeStack :: "string \<Rightarrow> string" where
  "spec_nativeStack capture = join [LF] (drop 1 (stackFrames capture))"

section \<open>Sample inputs\<close>

text \<open>A host, three loggers and the default options, for the theorems at concrete inputs.\<close>

definition sampleEnv :: Env where
  "sampleEnv =
     \<lparr>now = (\<lambda>n. ''2026-01-01T00:00:00.00'' @ showNat n @ ''Z''),
      inspect = (\<lambda>h v depth colors. ''[inspected]''),
      newErrorStack = Some (''Error'' @ [LF] @ ''    at captureNativeStack (logger.ts:53:15)''
                            @ [LF] @ ''    at main (app.ts:7:3)''),
      jsonText = (\<lambda>j. ''[json]''),
      NO_COLOR = None, FORCE_COLOR = None, COLORTERM = None,
      bunEnableANSIColors = None, stdoutIsTTY = False,
      moduleToTruecolor = (\<lambda>m. []),
      callFunction = (\<lambda>f this key. Inr VUndefined)\<rparr>"

definition defaultOptions :: LoggerOptions where
  "defaultOptions =
     \<lparr>opt_logLevel = None, opt_module = None, opt_outputFormat = None,
      opt_jsonlSplitStreams = None\<rparr>"

definition textLogger :: Logger where
  "textLogger =
     \<lparr>logLevel = ''info'', module = [], useColor = False, useTruecolor = False,
      moduleColor = [], outputFormat = ''text'', jsonlSplitStreams = False\<rparr>"

definition jsonLogger :: Logger where
  "jsonLogger =
     \<lparr>logLevel = ''info'', module = [], useColor = False, useTruecolor = False,
      moduleColor = [], outputFormat = ''jsonl'', jsonlSplitStreams = False\<rparr>"

definition jsonSplitLogger :: Logger where
  "jsonSplitLogger =
     \<lparr>logLevel = ''info'', module = [], useColor = False, useTruecolor = False,
      moduleColor = [], outputFormat = ''jsonl'', jsonlSplitStreams = True\<rparr>"

text \<open>
  Three stores. \<open>cyclicWithCause\<close>: an error \<open>outer\<close> whose cause is the error \<open>inner\<close>,
  and the object \<open>o = {e: outer}\<close> with \<open>o.self = o\<close>. \<open>cyclicPlain\<close>: the object
  \<open>o = {n: 1}\<close> with \<open>o.self = o\<close>. \<open>sharedContext\<close>: the object
  \<open>{traceId: "abc123"}\<close>.
\<close>

definition cyclicWithCause :: heap where
  "cyclicWithCause =
     [OError \<lparr>name = Some ''Error'', message = Some ''inner'', stack = None,
               cause = VUndefined\<rparr>,
      OError \<lparr>name = Some ''Error'', message = Some ''outer'', stack = None,
               cause = VRef 0\<rparr>,
      OObject [(''e'', VRef 1), (''self'', VRef 2)]]"

definition cyclicPlain :: heap where
  "cyclicPlain = [OObject [(''n'', VNum 1), (''self'', VRef 0)]]"

definition sharedContext :: heap where
  "sharedContext = [OObject [(''traceId'', VStr ''abc123'')]]"

section \<open>Properties of the Error Inspector\<close>

lemma orElse_nonempty: "d \<noteq> [] \<Longrightarrow> orElse x d \<noteq> []"
  by (simp add: orElse_def split: option.splits)

text \<open>
  C8. The display message of an error is its message when that is defined and
  non-empty, otherwise its name when that is non-empty, otherwise the literal
  \<open>Error\<close>. An error with message \<open>""\<close> and name \<open>TypeError\<close> renders as
  \<open>TypeError\<close>, and the display message is never the empty string.
\<close>

theorem formatErrorMessage_contract:
  "(message e = Some m \<and> m \<noteq> [] \<longrightarrow> formatErrorMessage e = m)
   \<and> ((message e = None \<or> message e = Some []) \<and> name e = Some n \<and> n \<noteq> []
        \<longrightarrow> formatErrorMessage e = n)
   \<and> ((message e = None \<or> message e = Some []) \<and> (name e = None \<or> name e = Some [])
        \<longrightarrow> formatErrorMessage e = ''Error'')
   \<and> (message e = Some [] \<and> name e = Some ''TypeError''
        \<longrightarrow> formatErrorMessage e = ''TypeError'')
   \<and> formatErrorMessage e \<noteq> []"
  by (auto simp: formatErrorMessage_def orElse_def split: option.splits)

theorem formatErrorMessage_contract_witness:
  "formatErrorMessage \<lparr>name = Some ''RangeError'', message = Some ''boom'',
       stack = None, cause = VUndefined\<rparr> = ''boom''
   \<and> formatErrorMessage \<lparr>name = Some ''TypeError'', message = Some [],
       stack = None, cause = VUndefined\<rparr> = ''TypeError''
   \<and> formatErrorMessage \<lparr>name = Some ''TypeError'', message = None,
       stack = None, cause = VUndefined\<rparr> = ''TypeError''
   \<and> formatErrorMessage \<lparr>name = Some [], message = Some [],
       stack = None, cause = VUndefined\<rparr> = ''Error''
   \<and> formatErrorMessage \<lparr>name = None, message = None,
       stack = None, cause = VUndefined\<rparr> = ''Error''"
  using
    formatErrorMessage_contract [of "\<lparr>name = Some ''RangeError'', message = Some ''boom'',
       stack = None, cause = VUndefined\<rparr>" "''boom''" "''RangeError''"]
    formatErrorMessage_contract [of "\<lparr>name = Some ''TypeError'', message = Some [],
       stack = None, cause = VUndefined\<rparr>" "[]" "''TypeError''"]
    formatErrorMessage_contract [of "\<lparr>name = Some ''TypeError'', message = None,
       stack = None, cause = VUndefined\<rparr>" "[]" "''TypeError''"]
    formatErrorMessage_contract [of "\<lparr>name = Some [], message = Some [],
       stack = None, cause = VUndefined\<rparr>" "[]" "[]"]
    formatErrorMessage_contract [of "\<lparr>name = None, message = None,
       stack = None, cause = VUndefined\<rparr>" "[]" "[]"]
  by simp

lemma instanceofError_SomeD:
  "instanceofError h v = Some (a, e) \<Longrightarrow> v = VRef a \<and> lookup h a = Some (OError e)"
  by (auto simp: instanceofError_def split: jsval.splits jsobj.splits option.splits)

lemma causesLoop_visits_once:
  "distinct (map fst causes) \<Longrightarrow> fst ` set causes \<subseteq> set seen \<Longrightarrow> r \<in> set seen
   \<Longrightarrow> r \<notin> fst ` set causes
   \<Longrightarrow> distinct (map fst (causesLoop h seen causes current))
       \<and> r \<notin> fst ` set (causesLoop h seen causes current)"
proof (induction h seen causes current rule: causesLoop.induct)
  case (1 h seen causes current)
  show ?case
  proof (cases "instanceofError h current")
    case None
    with 1 show ?thesis by (simp add: causesLoop.simps)
  next
    case (Some p)
    obtain a e where p: "p = (a, e)" by (cases p)
    show ?thesis
    proof (cases "a \<in> set seen")
      case True
      with 1 Some p show ?thesis by (simp add: causesLoop.simps)
    next
      case False
      have "distinct (map fst (causesLoop h (seen @ [a]) (causes @ [(a, e)]) (cause e))) \<and>
            r \<notin> fst ` set (causesLoop h (seen @ [a]) (causes @ [(a, e)]) (cause e))"
        using 1 Some p False by (intro "1.IH"[OF Some _ False]) auto
      with Some p False show ?thesis by (simp add: causesLoop.simps)
    qed
  qed
qed

text \<open>
  C2. \<open>getErrorCauses\<close> is a total function (its loop terminates on every store, cyclic
  or not); the chain it returns holds no error twice and never the root error; for an
  error whose cause is itself it is empty; and for \<open>A.cause = B\<close>, \<open>B.cause = A\<close> it
  is exactly \<open>[B]\<close>.
\<close>

theorem getErrorCauses_cycle_safe:
  "distinct (map fst (getErrorCauses h a))
   \<and> a \<notin> fst ` set (getErrorCauses h a)
   \<and> (lookup h a = Some (OError ea) \<and> cause ea = VRef a \<longrightarrow> getErrorCauses h a = [])
   \<and> (lookup h a = Some (OError ea) \<and> cause ea = VRef b
        \<and> lookup h b = Some (OError eb) \<and> cause eb = VRef a \<and> a \<noteq> b
        \<longrightarrow> getErrorCauses h a = [(b, eb)])"
proof -
  have "distinct (map fst (getErrorCauses h a)) \<and> a \<notin> fst ` set (getErrorCauses h a)"
  proof (cases "lookup h a")
    case None
    then show ?thesis by (simp add: getErrorCauses_def)
  next
    case (Some ob)
    show ?thesis
    proof (cases ob)
      case (OError e)
      have "distinct (map fst (causesLoop h [a] [] (cause e)))
            \<and> a \<notin> fst ` set (causesLoop h [a] [] (cause e))"
        by (rule causesLoop_visits_once) simp_all
      with Some OError show ?thesis by (simp add: getErrorCauses_def)
    qed (use Some in \<open>simp_all add: getErrorCauses_def\<close>)
  qed
  moreover have "lookup h a = Some (OError ea) \<and> cause ea = VRef a
      \<longrightarrow> getErrorCauses h a = []"
    by (simp add: getErrorCauses_def causesLoop.simps instanceofError_def)
  moreover have "lookup h a = Some (OError ea) \<and> cause ea = VRef b
        \<and> lookup h b = Some (OError eb) \<and> cause eb = VRef a \<and> a \<noteq> b
        \<longrightarrow> getErrorCauses h a = [(b, eb)]"
    by (simp add: getErrorCauses_def causesLoop.simps instanceofError_def)
  ultimately show ?thesis by blast
qed

theorem getErrorCauses_cycle_safe_witness:
  "getErrorCauses
     [OError \<lparr>name = Some ''Error'', message = Some ''A'', stack = None, cause = VRef 0\<rparr>] 0
     = []
   \<and> getErrorCauses
     [OError \<lparr>name = Some ''Error'', message = Some ''A'', stack = None, cause = VRef 1\<rparr>,
      OError \<lparr>name = Some ''Error'', message = Some ''B'', stack = None, cause = VRef 0\<rparr>] 0
     = [(1, \<lparr>name = Some ''Error'', message = Some ''B'', stack = None, cause = VRef 0\<rparr>)]"
  using
    getErrorCauses_cycle_safe [of
      "[OError \<lparr>name = Some ''Error'', message = Some ''A'', stack = None, cause = VRef 0\<rparr>]"
      0 "\<lparr>name = Some ''Error'', message = Some ''A'', stack = None, cause = VRef 0\<rparr>"
      0 "\<lparr>name = Some ''Error'', message = Some ''A'', stack = None, cause = VRef 0\<rparr>"]
    getErrorCauses_cycle_safe [of
      "[OError \<lparr>name = Some ''Error'', message = Some ''A'', stack = None, cause = VRef 1\<rparr>,
        OError \<lparr>name = Some ''Error'', message = Some ''B'', stack = None, cause = VRef 0\<rparr>]"
      0 "\<lparr>name = Some ''Error'', message = Some ''A'', stack = None, cause = VRef 1\<rparr>"
      1 "\<lparr>name = Some ''Error'', message = Some ''B'', stack = None, cause = VRef 0\<rparr>"]
  by (simp add: lookup_def)

section \<open>Properties of the configuration\<close>

lemma join_LOG_LEVELS: "join '', '' LOG_LEVELS = ''debug, info, warn, error, fatal''"
  by (simp add: LOG_LEVELS_def)

lemma join_OUTPUT_FORMATS: "join '', '' OUTPUT_FORMATS = ''text, jsonl''"
  by (simp add: OUTPUT_FORMATS_def)

lemma invalidLevelMessage_lists:
  "sublist ''debug, info, warn, error, fatal'' (invalidLevelMessage level)"
proof -
  have "suffix ''debug, info, warn, error, fatal'' (invalidLevelMessage level)"
    unfolding invalidLevelMessage_def join_LOG_LEVELS
    by (intro suffix_appendI) simp
  then show ?thesis by (rule suffix_imp_sublist)
qed

lemma invalidFormatMessage_lists:
  "sublist ''text, jsonl'' (invalidFormatMessage fmt)"
proof -
  have "suffix ''text, jsonl'' (invalidFormatMessage fmt)"
    unfolding invalidFormatMessage_def join_OUTPUT_FORMATS
    by (intro suffix_appendI) simp
  then show ?thesis by (rule suffix_imp_sublist)
qed

text \<open>
  C5. Construction with a minimum level that is not one of the five levels throws the
  error whose message is \<open>invalidLevelMessage\<close>, which contains the literal
  \<open>debug, info, warn, error, fatal\<close>; construction with a valid level and an output
  format that is not \<open>text\<close> or \<open>jsonl\<close> throws the error whose message is
  \<open>invalidFormatMessage\<close>, which contains \<open>text, jsonl\<close>; an invalid format always
  makes construction throw (the level is checked first, so with an invalid level as
  well the error is the one of the level). No logger is built in any of these cases.
  \<open>setLogLevel\<close> with an invalid level throws the same error of the level and leaves
  the logger as it was, so every later call is filtered by the level set before.
\<close>

theorem invalid_configuration_fails:
  "(level \<notin> set LOG_LEVELS \<longrightarrow>
      newLogger env (opts\<lparr>opt_logLevel := Some level\<rparr>)
        = Inl (Error (invalidLevelMessage level)))
   \<and> (level \<in> set LOG_LEVELS \<and> fmt \<notin> set OUTPUT_FORMATS \<longrightarrow>
      newLogger env (opts\<lparr>opt_logLevel := Some level, opt_outputFormat := Some fmt\<rparr>)
        = Inl (Error (invalidFormatMessage fmt)))
   \<and> (fmt \<notin> set OUTPUT_FORMATS \<longrightarrow>
      (\<exists>x. newLogger env (opts\<lparr>opt_outputFormat := Some fmt\<rparr>) = Inl (Error x)))
   \<and> sublist ''debug, info, warn, error, fatal'' (invalidLevelMessage level)
   \<and> sublist ''text, jsonl'' (invalidFormatMessage fmt)
   \<and> (level \<notin> set LOG_LEVELS \<longrightarrow>
      setLogLevel s level = (Some (Error (invalidLevelMessage level)), s)
      \<and> logInternal env h (snd (setLogLevel s level)) l m args c
          = logInternal env h s l m args c)"
  by (auto simp: newLogger_def setLogLevel_def Let_def invalidLevelMessage_lists
        invalidFormatMessage_lists LOG_LEVELS_def split: option.splits)

theorem invalid_configuration_fails_witness:
  "newLogger sampleEnv (defaultOptions\<lparr>opt_logLevel := Some ''invalid''\<rparr>)
     = Inl (Error (''Invalid log level: '' @ [CHR 0x22] @ ''invalid'' @ [CHR 0x22]
                   @ ''. Valid levels: debug, info, warn, error, fatal''))
   \<and> newLogger sampleEnv
        (defaultOptions\<lparr>opt_logLevel := Some ''warn'', opt_outputFormat := Some ''xml''\<rparr>)
     = Inl (Error (''Invalid output format: '' @ [CHR 0x22] @ ''xml'' @ [CHR 0x22]
                   @ ''. Valid formats: text, jsonl''))
   \<and> newLogger sampleEnv (defaultOptions\<lparr>opt_outputFormat := Some ''xml''\<rparr>)
     = Inl (Error (''Invalid output format: '' @ [CHR 0x22] @ ''xml'' @ [CHR 0x22]
                   @ ''. Valid formats: text, jsonl''))
   \<and> setLogLevel textLogger ''bad''
     = (Some (Error (''Invalid log level: '' @ [CHR 0x22] @ ''bad'' @ [CHR 0x22]
                     @ ''. Valid levels: debug, info, warn, error, fatal'')), textLogger)
   \<and> logInternal sampleEnv [] (snd (setLogLevel textLogger ''bad'')) ''debug'' (VStr ''x'') []
        None
     = logInternal sampleEnv [] textLogger ''debug'' (VStr ''x'') [] None"
  using
    invalid_configuration_fails [where level = "''invalid''" and env = sampleEnv
      and opts = defaultOptions and fmt = "''xml''" and s = textLogger and h = "[]"
      and l = "''debug''" and m = "VStr ''x''" and args = "[]" and c = None]
    invalid_configuration_fails [where level = "''warn''" and env = sampleEnv
      and opts = defaultOptions and fmt = "''xml''" and s = textLogger and h = "[]"
      and l = "''debug''" and m = "VStr ''x''" and args = "[]" and c = None]
    invalid_configuration_fails [where level = "''bad''" and env = sampleEnv
      and opts = defaultOptions and fmt = "''xml''" and s = textLogger and h = "[]"
      and l = "''debug''" and m = "VStr ''x''" and args = "[]" and c = None]
  by (simp add: LOG_LEVELS_def OUTPUT_FORMATS_def invalidLevelMessage_def
        invalidFormatMessage_def defaultOptions_def newLogger_def)

section \<open>Properties of the router\<close>

lemma logErrors_events:
  "logErrors env h s t level errs = (evs, t') \<Longrightarrow> ev \<in> set evs
   \<Longrightarrow> \<exists>m. ev = writeLine s level m"
proof (induction errs arbitrary: t evs t')
  case Nil
  then show ?case by simp
next
  case (Cons err errs)
  obtain a e where err: "err = (a, e)" by (cases err)
  from Cons.prems show ?case
    by (auto simp: err Let_def logCauseChain_def logStack_def
        split: prod.splits if_splits dest: Cons.IH)
qed

lemma logInternal_events:
  "ev \<in> set (fst (logInternal env h s level msg args c))
   \<Longrightarrow> ev = Exit 1 \<or> (\<exists>m. ev = writeLine s level m)"
  by (auto simp: logInternal_def Let_def logStack_def
      split: if_splits sum.splits prod.splits dest: logErrors_events [OF sym])

text \<open>
  C6. A line written at a level goes to the stream \<open>writeLine\<close> chooses: in text mode
  to \<open>stdout\<close> at \<open>debug\<close> and \<open>info\<close> and to \<open>stderr\<close> at \<open>warn\<close>, \<open>error\<close> and
  \<open>fatal\<close>; in JSON mode with the split flag unset to \<open>stdout\<close> at every level; in
  JSON mode with the split flag set as in text mode. Every line of a call of
  \<open>logInternal\<close> is written by \<open>writeLine\<close> at the level of the call.
\<close>

theorem writeLine_routing:
  "(outputFormat s = ''text'' \<and> level \<in> {''debug'', ''info''}
      \<longrightarrow> writeLine s level m = Write Stdout (m @ [LF]))
   \<and> (outputFormat s = ''text'' \<and> level \<in> {''warn'', ''error'', ''fatal''}
      \<longrightarrow> writeLine s level m = Write Stderr (m @ [LF]))
   \<and> (outputFormat s = ''jsonl'' \<and> \<not> jsonlSplitStreams s
      \<longrightarrow> writeLine s level m = Write Stdout (m @ [LF]))
   \<and> (outputFormat s = ''jsonl'' \<and> jsonlSplitStreams s \<and> level \<in> {''debug'', ''info''}
      \<longrightarrow> writeLine s level m = Write Stdout (m @ [LF]))
   \<and> (outputFormat s = ''jsonl'' \<and> jsonlSplitStreams s
        \<and> level \<in> {''warn'', ''error'', ''fatal''}
      \<longrightarrow> writeLine s level m = Write Stderr (m @ [LF]))
   \<and> (\<forall>ev. ev \<in> set (fst (logInternal env h s level msg args c))
      \<longrightarrow> ev = Exit 1 \<or> (\<exists>x. ev = writeLine s level x))"
  using logInternal_events [of _ env h s level msg args c]
  by (auto simp: writeLine_def STDOUT_LEVELS_def)

theorem writeLine_routing_witness:
  "writeLine textLogger ''info'' ''m'' = Write Stdout (''m'' @ [LF])
   \<and> writeLine textLogger ''debug'' ''m'' = Write Stdout (''m'' @ [LF])
   \<and> writeLine textLogger ''warn'' ''m'' = Write Stderr (''m'' @ [LF])
   \<and> writeLine textLogger ''fatal'' ''m'' = Write Stderr (''m'' @ [LF])
   \<and> writeLine jsonLogger ''error'' ''m'' = Write Stdout (''m'' @ [LF])
   \<and> writeLine jsonSplitLogger ''info'' ''m'' = Write Stdout (''m'' @ [LF])
   \<and> writeLine jsonSplitLogger ''error'' ''m'' = Write Stderr (''m'' @ [LF])
   \<and> fst (logInternal sampleEnv [] textLogger ''warn'' (VStr ''x'') [] None)
       = [writeLine textLogger ''warn'' (buildPrefix sampleEnv textLogger 0 ''warn'' @ ''x'')]"
  using
    writeLine_routing [where s = textLogger and level = "''info''" and m = "''m''"
      and env = sampleEnv and h = "[]" and msg = "VStr ''x''" and args = "[]" and c = None]
    writeLine_routing [where s = textLogger and level = "''debug''" and m = "''m''"
      and env = sampleEnv and h = "[]" and msg = "VStr ''x''" and args = "[]" and c = None]
    writeLine_routing [where s = textLogger and level = "''warn''" and m = "''m''"
      and env = sampleEnv and h = "[]" and msg = "VStr ''x''" and args = "[]" and c = None]
    writeLine_routing [where s = textLogger and level = "''fatal''" and m = "''m''"
      and env = sampleEnv and h = "[]" and msg = "VStr ''x''" and args = "[]" and c = None]
    writeLine_routing [where s = jsonLogger and level = "''error''" and m = "''m''"
      and env = sampleEnv and h = "[]" and msg = "VStr ''x''" and args = "[]" and c = None]
    writeLine_routing [where s = jsonSplitLogger and level = "''info''" and m = "''m''"
      and env = sampleEnv and h = "[]" and msg = "VStr ''x''" and args = "[]" and c = None]
    writeLine_routing [where s = jsonSplitLogger and level = "''error''" and m = "''m''"
      and env = sampleEnv and h = "[]" and msg = "VStr ''x''" and args = "[]" and c = None]
  by (simp add: textLogger_def jsonLogger_def jsonSplitLogger_def logInternal_def
        LOG_LEVELS_def formatValue_def formatArgs_def Let_def)

section \<open>Properties of the JSON record\<close>

lemma map_filter_nonempty:
  "List.map_filter f xs \<noteq> [] \<longleftrightarrow> (\<exists>v. v \<in> set xs \<and> f v \<noteq> None)"
  by (auto simp: map_filter_def filter_empty_conv)

lemma buildJsonRecord_key_list:
  "map fst (buildJsonRecord env h s level msg args ctx) =
     [''timestamp'', ''level'', ''message'']
     @ (if module s \<noteq> [] then [''module''] else [])
     @ (if args \<noteq> [] then [''args''] else [])
     @ (if \<exists>c. ctx = Some c \<and> duration c \<noteq> None then [''duration''] else [])
     @ (if \<exists>c. ctx = Some c \<and> durationMs c \<noteq> None then [''durationMs''] else [])
     @ (if level = ''error'' \<or> level = ''fatal''
        then (if \<exists>v. v \<in> set (msg # args) \<and> instanceofError h v \<noteq> None
              then [''errors''] else []) @ [''nativeStack'']
        else [])"
  unfolding buildJsonRecord_def Let_def map_filter_nonempty
  by (simp split: option.splits)

lemma keys_image: "fst ` set r = set (map fst r)"
  by simp

lemma record_keys_distinct:
  "distinct ([''timestamp'', ''level'', ''message'']
     @ (if b1 then [''module''] else [])
     @ (if b2 then [''args''] else [])
     @ (if b3 then [''duration''] else [])
     @ (if b4 then [''durationMs''] else [])
     @ (if b5 then (if b6 then [''errors''] else []) @ [''nativeStack''] else []))"
  by (cases b1; cases b2; cases b3; cases b4; cases b5; cases b6; simp)

lemma record_keys_member:
  fixes b1 b2 b3 b4 b5 b6 :: bool
  defines "ks \<equiv> [''timestamp'', ''level'', ''message'']
     @ (if b1 then [''module''] else [])
     @ (if b2 then [''args''] else [])
     @ (if b3 then [''duration''] else [])
     @ (if b4 then [''durationMs''] else [])
     @ (if b5 then (if b6 then [''errors''] else []) @ [''nativeStack''] else [])"
  shows "''module'' \<in> set ks \<longleftrightarrow> b1"
    and "''args'' \<in> set ks \<longleftrightarrow> b2"
    and "''duration'' \<in> set ks \<longleftrightarrow> b3"
    and "''durationMs'' \<in> set ks \<longleftrightarrow> b4"
    and "''errors'' \<in> set ks \<longleftrightarrow> b5 \<and> b6"
    and "''nativeStack'' \<in> set ks \<longleftrightarrow> b5"
  unfolding ks_def by simp_all

lemma buildJsonRecord_distinct:
  "distinct (map fst (buildJsonRecord env h s level msg args ctx))"
  unfolding buildJsonRecord_key_list by (rule record_keys_distinct)

lemma nativeStack_value:
  "level = ''error'' \<or> level = ''fatal'' \<Longrightarrow>
     map_of (buildJsonRecord env h s level msg args ctx) ''nativeStack''
       = Some (Raw (VStr (captureNativeStack env)))"
  using map_of_eq_Some_iff [OF buildJsonRecord_distinct,
      of env h s level msg args ctx "''nativeStack''" "Raw (VStr (captureNativeStack env))"]
  by (simp add: buildJsonRecord_def Let_def)

text \<open>
  C7, as stated, fails: with a duration context supplied that defines neither field
  (the object \<open>{}\<close>, a value of the type of the parameter), the record has no
  \<open>duration\<close>.
\<close>

theorem duration_context_counterexample:
  "\<not> (''duration'' \<in> fst ` set (buildJsonRecord sampleEnv [] jsonLogger ''info'' (VStr ''x'') []
          (Some \<lparr>duration = None, durationMs = None\<rparr>))
       \<longleftrightarrow> Some \<lparr>duration = None, durationMs = None\<rparr> \<noteq> None)"
  by (simp add: buildJsonRecord_def jsonLogger_def)

text \<open>
  C7, amended. Every record has the keys \<open>timestamp\<close>, \<open>level\<close> and \<open>message\<close> (the
  raw message); it has \<open>module\<close> exactly when the module label is not empty, \<open>args\<close>
  exactly when there are extra arguments (then the array of the raw arguments in
  order), \<open>duration\<close> exactly when a context is supplied and defines \<open>duration\<close>,
  \<open>durationMs\<close> exactly when a context is supplied and defines \<open>durationMs\<close>,
  \<open>errors\<close> exactly when the level is \<open>error\<close> or \<open>fatal\<close> and the message or an
  argument is an error, and \<open>nativeStack\<close> exactly when the level is \<open>error\<close> or
  \<open>fatal\<close>. No key occurs twice.
\<close>

theorem buildJsonRecord_keys:
  "map_of (buildJsonRecord env h s level msg args ctx) ''timestamp''
      = Some (Raw (VStr (now env 0)))
   \<and> map_of (buildJsonRecord env h s level msg args ctx) ''level''
      = Some (Raw (VStr level))
   \<and> map_of (buildJsonRecord env h s level msg args ctx) ''message'' = Some (Raw msg)
   \<and> (''module'' \<in> fst ` set (buildJsonRecord env h s level msg args ctx)
        \<longleftrightarrow> module s \<noteq> [])
   \<and> (''args'' \<in> fst ` set (buildJsonRecord env h s level msg args ctx)
        \<longleftrightarrow> args \<noteq> [])
   \<and> (args \<noteq> [] \<longrightarrow>
        map_of (buildJsonRecord env h s level msg args ctx) ''args''
          = Some (NewArr 1 (map Raw args)))
   \<and> (''duration'' \<in> fst ` set (buildJsonRecord env h s level msg args ctx)
        \<longleftrightarrow> (\<exists>c. ctx = Some c \<and> duration c \<noteq> None))
   \<and> (''durationMs'' \<in> fst ` set (buildJsonRecord env h s level msg args ctx)
        \<longleftrightarrow> (\<exists>c. ctx = Some c \<and> durationMs c \<noteq> None))
   \<and> (''errors'' \<in> fst ` set (buildJsonRecord env h s level msg args ctx)
        \<longleftrightarrow> (level = ''error'' \<or> level = ''fatal'')
            \<and> (\<exists>v. v \<in> set (msg # args) \<and> instanceofError h v \<noteq> None))
   \<and> (''nativeStack'' \<in> fst ` set (buildJsonRecord env h s level msg args ctx)
        \<longleftrightarrow> level = ''error'' \<or> level = ''fatal'')
   \<and> distinct (map fst (buildJsonRecord env h s level msg args ctx))"
  unfolding keys_image buildJsonRecord_key_list
  apply (intro conjI)
  subgoal by (simp add: buildJsonRecord_def)
  subgoal by (simp add: buildJsonRecord_def)
  subgoal by (simp add: buildJsonRecord_def)
  subgoal by (rule record_keys_member)
  subgoal by (rule record_keys_member)
  subgoal
    using map_of_eq_Some_iff [OF buildJsonRecord_distinct,
        of env h s level msg args ctx "''args''" "NewArr 1 (map Raw args)"]
    by (simp add: buildJsonRecord_def)
  subgoal by (rule record_keys_member)
  subgoal by (rule record_keys_member)
  subgoal by (rule record_keys_member)
  subgoal by (rule record_keys_member)
  subgoal by (rule record_keys_distinct)
  done

theorem buildJsonRecord_keys_witness:
  "map_of (buildJsonRecord sampleEnv [] jsonLogger ''info'' (VStr ''x'') [VNum 42]
       (Some \<lparr>duration = Some ''1s'', durationMs = Some 1000\<rparr>)) ''args''
     = Some (NewArr 1 [Raw (VNum 42)])
   \<and> map fst (buildJsonRecord sampleEnv [] jsonLogger ''info'' (VStr ''x'') [VNum 42]
       (Some \<lparr>duration = Some ''1s'', durationMs = Some 1000\<rparr>))
     = [''timestamp'', ''level'', ''message'', ''args'', ''duration'', ''durationMs'']"
  using buildJsonRecord_keys [of sampleEnv "[]" jsonLogger "''info''" "VStr ''x''" "[VNum 42]"
      "Some \<lparr>duration = Some ''1s'', durationMs = Some 1000\<rparr>"]
  by (simp add: buildJsonRecord_def jsonLogger_def)

text \<open>
  C4, as stated, fails: on a capture with the header and two frames, the field holds
  both frames, the first one too; the trace without its first frame is another text.
\<close>

theorem nativeStack_first_frame_counterexample:
  "map_of (buildJsonRecord sampleEnv [] jsonLogger ''error'' (VStr ''x'') [] None)
       ''nativeStack''
     = Some (Raw (VStr (''    at captureNativeStack (logger.ts:53:15)'' @ [LF]
                        @ ''    at main (app.ts:7:3)'')))
   \<and> spec_nativeStack (''Error'' @ [LF] @ ''    at captureNativeStack (logger.ts:53:15)''
                        @ [LF] @ ''    at main (app.ts:7:3)'')
     = ''    at main (app.ts:7:3)''
   \<and> map_of (buildJsonRecord sampleEnv [] jsonLogger ''error'' (VStr ''x'') [] None)
       ''nativeStack''
     \<noteq> Some (Raw (VStr (spec_nativeStack (orElse (newErrorStack sampleEnv) []))))"
  by (simp add: buildJsonRecord_def jsonLogger_def sampleEnv_def captureNativeStack_def
        spec_nativeStack_def stackFrames_def orElse_def LF_def Let_def map_filter_def)

text \<open>
  C4, amended. In every record of level \<open>error\<close> or \<open>fatal\<close> the field \<open>nativeStack\<close>
  is the text of the stack the logger itself captures during the call with its first
  line, the header \<open>Error\<close>, removed: all the frames of the capture, the first one
  too (the empty text when the capture has no stack). It does not depend on the
  message, the arguments or the store, so it is the stack of no logged error.
\<close>

theorem nativeStack_field:
  "level = ''error'' \<or> level = ''fatal'' \<Longrightarrow>
     map_of (buildJsonRecord env h s level msg args ctx) ''nativeStack''
       = Some (Raw (VStr (join [LF] (stackFrames (orElse (newErrorStack env) [])))))
     \<and> map_of (buildJsonRecord env h s level msg args ctx) ''nativeStack''
       = map_of (buildJsonRecord env h' s level msg' args' ctx) ''nativeStack''"
  by (simp add: nativeStack_value captureNativeStack_def stackFrames_def)

theorem nativeStack_field_witness:
  "map_of (buildJsonRecord sampleEnv cyclicWithCause jsonLogger ''fatal'' (VRef 1) [] None)
       ''nativeStack''
     = Some (Raw (VStr (''    at captureNativeStack (logger.ts:53:15)'' @ [LF]
                        @ ''    at main (app.ts:7:3)'')))
   \<and> map_of (buildJsonRecord sampleEnv cyclicWithCause jsonLogger ''fatal'' (VRef 1) [] None)
       ''nativeStack''
     = map_of (buildJsonRecord sampleEnv [] jsonLogger ''fatal'' (VStr ''x'') [VNum 1] None)
         ''nativeStack''"
proof -
  have f: "join [LF] (stackFrames (orElse (newErrorStack sampleEnv) []))
      = ''    at captureNativeStack (logger.ts:53:15)'' @ [LF] @ ''    at main (app.ts:7:3)''"
    by (simp add: sampleEnv_def stackFrames_def orElse_def LF_def)
  have p: "''fatal'' = ''error'' \<or> ''fatal'' = ''fatal''"
    by simp
  from nativeStack_field [OF p, of sampleEnv cyclicWithCause jsonLogger "VRef 1" "[]"
        None "[]" "VStr ''x''" "[VNum 1]"]
  show ?thesis unfolding f .
qed

section \<open>Properties of the stringification\<close>

text \<open>
  The replacer never answers \<open>undefined\<close>, a function or a symbol, so the walk drops
  no property: when the stringification returns, the JSON object has the keys of the
  record, in the order of the record.
\<close>

lemma replacer_defined:
  assumes "replacer env h this st v = (v', st')"
  shows "v' \<noteq> Raw VUndefined" and "v' \<noteq> Raw (VFunction f)" and "v' \<noteq> Raw (VSymbol f)"
    and "v' \<noteq> Raw (VBigInt n)" and "v' = Raw (VRef a) \<Longrightarrow> lookup h a \<noteq> None"
  using assms
  by (cases v; cases "instanceofError h (case v of Raw x \<Rightarrow> x | _ \<Rightarrow> VNull)";
      auto simp: replacer_def serializeError_def Let_def lookup_def
        dest!: track_cases split: jsval.splits if_splits prod.splits)+

lemma serializeJSONProperty_defined:
  "serializeJSONProperty env h stk holder key st v = Inr (r, st') \<Longrightarrow> r \<noteq> None"
proof -
  assume a: "serializeJSONProperty env h stk holder key st v = Inr (r, st')"
  then obtain v1 where t: "toJSON env h key v = Inr v1"
    by (cases "toJSON env h key v") (simp_all add: serializeJSONProperty.simps)
  obtain v' st1 where rp: "replacer env h holder st v1 = (v', st1)"
    by (cases "replacer env h holder st v1")
  note d = replacer_defined [OF rp]
  show ?thesis
  proof (cases v')
    case (Raw x)
    with a t rp d show ?thesis
      by (cases x)
         (auto simp: serializeJSONProperty.simps
            split: option.splits if_splits jsobj.splits sum.splits)
  next
    case (NewArr i ts)
    with a t rp show ?thesis
      by (auto simp: serializeJSONProperty.simps split: sum.splits)
  next
    case (NewObj i ps)
    with a t rp show ?thesis
      by (auto simp: serializeJSONProperty.simps split: sum.splits)
  qed
qed

lemma serializeJSONObject_keys:
  "serializeJSONObject env h stk holder st ps = Inr (js, st') \<Longrightarrow> map fst js = map fst ps"
proof (induction ps arbitrary: st js st')
  case Nil
  then show ?case by simp
next
  case (Cons p ps)
  from Cons.prems obtain r st1 js1 where
    p: "serializeJSONProperty env h stk holder (fst p) st (snd p) = Inr (r, st1)"
    and o: "serializeJSONObject env h stk holder st1 ps = Inr (js1, st')"
    and j: "js = (case r of None \<Rightarrow> js1 | Some x \<Rightarrow> (fst p, x) # js1)"
    by (auto split: sum.splits)
  from serializeJSONProperty_defined [OF p] obtain x where "r = Some x" by auto
  with j Cons.IH [OF o] show ?case by simp
qed

lemma stringifyJsonTree_keys:
  "stringifyJsonTree env h r = Inr j
   \<Longrightarrow> \<exists>kvs. j = Some (JObj kvs) \<and> map fst kvs = map fst r"
  by (auto simp: stringifyJsonTree_def Let_def serializeJSONProperty.simps replacer_def
        toJSON_def instanceofError_def track_def
      split: sum.splits dest: serializeJSONObject_keys)

section \<open>Properties of the logger\<close>

text \<open>
  What a call does, by cases: below the minimum level nothing; in text mode the primary
  line, then the cause and stack lines at \<open>error\<close> and \<open>fatal\<close> only, then the
  exit at \<open>fatal\<close>; in JSON mode one line and the exit at \<open>fatal\<close> when the
  stringification returns, and nothing but the exception when it throws.
\<close>

lemma logInternal_filtered:
  "indexOf LOG_LEVELS level < indexOf LOG_LEVELS (logLevel s)
   \<Longrightarrow> logInternal env h s level msg args ctx = ([], None)"
  by (simp add: logInternal_def)

lemma logErrors_writes:
  "logErrors env h s t level errs = (evs, t') \<Longrightarrow> Exit n \<notin> set evs"
  by (auto dest: logErrors_events simp: writeLine_def Let_def)

lemma logInternal_text:
  assumes "\<not> indexOf LOG_LEVELS level < indexOf LOG_LEVELS (logLevel s)"
    and "outputFormat s \<noteq> ''jsonl''"
  shows "\<exists>extra. logInternal env h s level msg args ctx
           = (writeLine s level (buildPrefix env s 0 level @ formatValue env h s msg
                @ formatArgs env h s args)
              # extra @ (if level = ''fatal'' then [Exit 1] else []), None)
         \<and> (level \<noteq> ''error'' \<and> level \<noteq> ''fatal'' \<longrightarrow> extra = [])
         \<and> (\<forall>ev. ev \<in> set extra \<longrightarrow> (\<exists>m. ev = writeLine s level m))"
proof -
  obtain evs t where le: "logErrors env h s 1 level
      (List.map_filter (instanceofError h) (msg # args)) = (evs, t)"
    by (cases "logErrors env h s 1 level (List.map_filter (instanceofError h) (msg # args))")
  from logErrors_events [OF le] have "\<forall>ev. ev \<in> set evs \<longrightarrow> (\<exists>m. ev = writeLine s level m)"
    by blast
  with assms le show ?thesis
    by (auto simp: logInternal_def Let_def logStack_def)
qed

lemma logInternal_json:
  assumes "\<not> indexOf LOG_LEVELS level < indexOf LOG_LEVELS (logLevel s)"
    and "outputFormat s = ''jsonl''"
  shows "logInternal env h s level msg args ctx
      = (case stringifyJsonRecord env h (buildJsonRecord env h s level msg args ctx) of
           Inl x \<Rightarrow> ([], Some x)
         | Inr line \<Rightarrow>
             (writeLine s level line # (if level = ''fatal'' then [Exit 1] else []), None))"
  using assms by (simp add: logInternal_def)

lemma logInternal_fatal_order:
  assumes pass: "\<not> indexOf LOG_LEVELS ''fatal'' < indexOf LOG_LEVELS (logLevel s)"
    and ret: "snd (logInternal env h s ''fatal'' msg args ctx) = None"
  shows "\<exists>ws. fst (logInternal env h s ''fatal'' msg args ctx) = ws @ [Exit 1]
           \<and> ws \<noteq> [] \<and> (\<forall>ev. ev \<in> set ws \<longrightarrow> (\<exists>m. ev = writeLine s ''fatal'' m))"
proof (cases "outputFormat s = ''jsonl''")
  case True
  from logInternal_json [OF pass True, of env h msg args ctx] ret show ?thesis
    by (auto split: sum.splits)
next
  case False
  from logInternal_text [OF pass False, of env h msg args ctx] obtain extra where
    e: "logInternal env h s ''fatal'' msg args ctx
          = (writeLine s ''fatal'' (buildPrefix env s 0 ''fatal'' @ formatValue env h s msg
                @ formatArgs env h s args) # extra @ [Exit 1], None)"
    and w: "\<forall>ev. ev \<in> set extra \<longrightarrow> (\<exists>m. ev = writeLine s ''fatal'' m)"
    by auto
  show ?thesis
    by (rule exI [of _ "writeLine s ''fatal'' (buildPrefix env s 0 ''fatal''
          @ formatValue env h s msg @ formatArgs env h s args) # extra"])
       (use e w in auto)
qed

lemma logInternal_text_returns:
  "outputFormat s \<noteq> ''jsonl'' \<Longrightarrow> snd (logInternal env h s level msg args ctx) = None"
  by (simp add: logInternal_def Let_def split: prod.splits)


section \<open>The native stack of a call\<close>

text \<open>
  At \<open>error\<close> and \<open>fatal\<close>, for a call that passes the filter. In text mode, when
  the native stack is not empty, the events of the call end with the header line (the
  prefix of the primary line, then \<open>Stack trace:\<close>) followed by one prefixed line
  per line of the native stack that \<open>trim\<close> does not empty, and then the exit at
  \<open>fatal\<close>. In JSON mode, when the call does not throw, its one line is the text of a
  JSON object with the keys of the record, \<open>nativeStack\<close> among them, with or
  without \<open>errors\<close>.
\<close>

lemma logInternal_text_native_stack:
  assumes lvl: "level = ''error'' \<or> level = ''fatal''"
    and pass: "\<not> indexOf LOG_LEVELS level < indexOf LOG_LEVELS (logLevel s)"
    and fmt: "outputFormat s \<noteq> ''jsonl''"
    and ns: "captureNativeStack env \<noteq> []"
  shows "\<exists>front t. fst (logInternal env h s level msg args ctx)
           = front
             @ writeLine s level (buildPrefix env s 0 level @ ''  Stack trace:'')
             # map (\<lambda>line. writeLine s level (buildPrefix env s t level @ ''  '' @ line))
                 (filter trimTruthy (splitOn LF (captureNativeStack env)))
             @ (if level = ''fatal'' then [Exit 1] else [])"
proof -
  obtain evs t where le: "logErrors env h s 1 level
      (List.map_filter (instanceofError h) (msg # args)) = (evs, t)"
    by (cases "logErrors env h s 1 level (List.map_filter (instanceofError h) (msg # args))")
  have "fst (logInternal env h s level msg args ctx)
      = (writeLine s level (buildPrefix env s 0 level @ formatValue env h s msg
            @ formatArgs env h s args) # evs)
        @ writeLine s level (buildPrefix env s 0 level @ ''  Stack trace:'')
        # map (\<lambda>line. writeLine s level (buildPrefix env s t level @ ''  '' @ line))
            (filter trimTruthy (splitOn LF (captureNativeStack env)))
        @ (if level = ''fatal'' then [Exit 1] else [])"
    using lvl pass fmt ns le by (simp add: logInternal_def Let_def logStack_def)
  then show ?thesis by blast
qed

lemma logInternal_json_native_stack:
  assumes lvl: "level = ''error'' \<or> level = ''fatal''"
    and pass: "\<not> indexOf LOG_LEVELS level < indexOf LOG_LEVELS (logLevel s)"
    and fmt: "outputFormat s = ''jsonl''"
    and ret: "snd (logInternal env h s level msg args ctx) = None"
  shows "\<exists>kvs. fst (logInternal env h s level msg args ctx)
           = writeLine s level (jsonText env (JObj kvs))
             # (if level = ''fatal'' then [Exit 1] else [])
         \<and> map fst kvs = map fst (buildJsonRecord env h s level msg args ctx)
         \<and> ''nativeStack'' \<in> fst ` set kvs"
proof -
  let ?r = "buildJsonRecord env h s level msg args ctx"
  from logInternal_json [OF pass fmt, of env h msg args ctx] ret
  obtain j where j: "stringifyJsonTree env h ?r = Inr j"
    by (cases "stringifyJsonTree env h ?r") (simp_all add: stringifyJsonRecord_def)
  from stringifyJsonTree_keys [OF j] obtain kvs where
    k: "j = Some (JObj kvs)" "map fst kvs = map fst ?r" by blast
  have "''nativeStack'' \<in> set (map fst ?r)"
    unfolding buildJsonRecord_key_list using lvl by (simp add: record_keys_member)
  with k(2) have n: "''nativeStack'' \<in> fst ` set kvs"
    by (metis set_map)
  from logInternal_json [OF pass fmt, of env h msg args ctx] j k(1)
  have "fst (logInternal env h s level msg args ctx)
      = writeLine s level (jsonText env (JObj kvs))
        # (if level = ''fatal'' then [Exit 1] else [])"
    by (simp add: stringifyJsonRecord_def)
  with k(2) n show ?thesis by blast
qed

section \<open>The circular guard\<close>

text \<open>
  C3. The replacer answers the marker for a back-edge to an open ancestor (the store
  \<open>cyclicPlain\<close>), and two arguments that are the same object are both printed in
  full (the store \<open>sharedContext\<close>). But on the store \<open>cyclicWithCause\<close> the
  stringification throws: the replacer substitutes a new object for the error \<open>outer\<close>;
  when it is called on the array \<open>causes\<close> of that object, the holder is not among the
  ancestors and the loop pops them all; at \<open>o.self\<close> the object \<open>o\<close> is then not
  found among the ancestors and is returned as it is, and \<open>JSON.stringify\<close> meets
  \<open>o\<close> on its own stack.
\<close>

theorem circular_guard_misses_back_edge:
  "stringifyJsonTree env cyclicPlain
       (buildJsonRecord env cyclicPlain jsonLogger ''info'' (VStr ''x'') [VRef 0] None)
     = Inr (Some (JObj [(''timestamp'', JStr (now env 0)), (''level'', JStr ''info''),
         (''message'', JStr ''x''),
         (''args'', JArr [JObj [(''n'', JNum 1), (''self'', JStr ''[Circular]'')]])]))
   \<and> stringifyJsonTree env sharedContext
       (buildJsonRecord env sharedContext jsonLogger ''info'' (VStr ''request'')
          [VRef 0, VRef 0] None)
     = Inr (Some (JObj [(''timestamp'', JStr (now env 0)), (''level'', JStr ''info''),
         (''message'', JStr ''request''),
         (''args'', JArr [JObj [(''traceId'', JStr ''abc123'')],
                          JObj [(''traceId'', JStr ''abc123'')]])]))
   \<and> stringifyJsonRecord env cyclicWithCause
       (buildJsonRecord env cyclicWithCause jsonLogger ''info'' (VStr ''x'') [VRef 2] None)
     = Inl (TypeError ''Converting circular structure to JSON'')"
  by code_simp

text \<open>
  C1. On the same input the call passes the filter (\<open>info\<close> at minimum level
  \<open>info\<close>) and writes no line: the exception of the stringification ends it before
  \<open>writeLine\<close>.
\<close>

theorem passing_call_writes_nothing:
  "\<not> indexOf LOG_LEVELS ''info'' < indexOf LOG_LEVELS (logLevel jsonLogger)
   \<and> logInternal env cyclicWithCause jsonLogger ''info'' (VStr ''x'') [VRef 2] None
     = ([], Some (TypeError ''Converting circular structure to JSON''))"
  by code_simp

text \<open>
  C9. On the same input at level \<open>fatal\<close> the call passes the filter, writes no line
  and does not exit: the exception ends it before both.
\<close>

theorem fatal_call_neither_emits_nor_exits:
  "\<not> indexOf LOG_LEVELS ''fatal'' < indexOf LOG_LEVELS (logLevel jsonLogger)
   \<and> logInternal env cyclicWithCause jsonLogger ''fatal'' (VStr ''x'') [VRef 2] None
     = ([], Some (TypeError ''Converting circular structure to JSON''))"
  by code_simp

text \<open>
  C10. On the same input at level \<open>error\<close> the call passes the filter; neither the
  message nor the argument is an error, so the record has no key \<open>errors\<close> and has
  the key \<open>nativeStack\<close>; but the call writes no line, so the native stack of the
  call is not emitted: the exception of the stringification ends the call before
  \<open>writeLine\<close>.
\<close>

theorem native_stack_not_emitted:
  "\<not> indexOf LOG_LEVELS ''error'' < indexOf LOG_LEVELS (logLevel jsonLogger)
   \<and> instanceofError cyclicWithCause (VStr ''x'') = None
   \<and> instanceofError cyclicWithCause (VRef 2) = None
   \<and> map fst (buildJsonRecord env cyclicWithCause jsonLogger ''error'' (VStr ''x'') [VRef 2]
        None)
     = [''timestamp'', ''level'', ''message'', ''args'', ''nativeStack'']
   \<and> logInternal env cyclicWithCause jsonLogger ''error'' (VStr ''x'') [VRef 2] None
     = ([], Some (TypeError ''Converting circular structure to JSON''))"
  by code_simp

end
